theory Spec2Isabelle
  imports Complex_Main "HOL-Library.Multiset" "HOL-Library.AList" "HOL-Library.Sublist"
begin

section \<open>Data model\<close>

text \<open>
  One row of the CO2 table, restricted to the three columns the filters and the
  metrics read. \<open>year\<close> is an integer after \<open>load_data\<close> (\<open>astype(int)\<close>);
  \<open>co2\<close> is a float64 column without NaN after \<open>fillna(0)\<close>. It is modelled
  by real numbers: sums, quotients and comparisons are the exact ones, rounding is not
  represented.
\<close>

record observation =
  country :: string
  year :: int
  co2 :: real

type_synonym dataset = "observation list"

section \<open>Filter Engine (lines 81 to 107)\<close>

text \<open>
  A boolean mask \<open>data[m1 & m2 & m3]\<close> keeps the rows where all three masks hold,
  in the order of the frame. Both branches of the \<open>if\<close> are kept as written.
\<close>

definition filtered_data :: "dataset \<Rightarrow> string \<Rightarrow> int \<Rightarrow> int \<Rightarrow> dataset" where
  "filtered_data data selected_country start_year end_year =
     (if selected_country = ''Global'' then
        filter (\<lambda>r. country r = ''World'' \<and> year r \<ge> start_year \<and> year r \<le> end_year) data
      else
        filter (\<lambda>r. country r = selected_country \<and> year r \<ge> start_year \<and> year r \<le> end_year) data)"

definition excluded_aggregates :: "string list" where
  "excluded_aggregates =
     [''World'', ''International Transport'', ''Oceania'', ''Asia'', ''Europe'', ''Africa'']"

text \<open>
  \<open>sort_values(by='co2', ascending=False)\<close> runs with pandas' default
  \<open>kind='quicksort'\<close>, which is not stable: the order among rows of equal \<open>co2\<close>
  is whatever the library's sort leaves. The sort is therefore an argument of the model,
  constrained by \<open>sorts_descending\<close>: it permutes its input and orders it by
  decreasing \<open>co2\<close>.
\<close>

definition by_co2_descending :: "observation \<Rightarrow> observation \<Rightarrow> bool" where
  "by_co2_descending a b \<longleftrightarrow> co2 b \<le> co2 a"

definition sorts_descending :: "(dataset \<Rightarrow> dataset) \<Rightarrow> bool" where
  "sorts_descending sort_values \<longleftrightarrow>
     (\<forall>xs. mset (sort_values xs) = mset xs \<and> sorted_wrt by_co2_descending (sort_values xs))"

text \<open>
  One sort that meets the constraint, following pandas' \<open>nargsort\<close> for
  \<open>ascending=False\<close> (reverse, sort ascending, reverse back) with a stable kind.
\<close>

definition sort_values_stable :: "dataset \<Rightarrow> dataset" where
  "sort_values_stable xs = rev (sort_key co2 (rev xs))"

definition country_ranking_data ::
  "(dataset \<Rightarrow> dataset) \<Rightarrow> dataset \<Rightarrow> string \<Rightarrow> int \<Rightarrow> dataset" where
  "country_ranking_data sort_values data selected_country end_year =
     (if selected_country = ''Global'' then
        take 10 (sort_values
          (filter (\<lambda>r. year r = end_year \<and> \<not> (country r \<in> set excluded_aggregates)) data))
      else
        take 10 (sort_values
          (filter (\<lambda>r. year r = end_year \<and> \<not> (country r \<in> set excluded_aggregates)) data)))"

section \<open>Metric Calculator (lines 120 to 173)\<close>

record metrics =
  total_co2_emitted :: real
  avg_annual_co2 :: real
  max_emissions_year :: int
  max_emissions_value :: real

text \<open>
  \<open>idxmax\<close> returns the label of the first row holding the maximum. The labels of
  a frame read by \<open>read_csv\<close> are the row numbers, which a mask keeps and which are
  unique, so \<open>loc[idxmax]\<close> is the row at the first position of the maximum.
\<close>

fun first_position :: "real \<Rightarrow> real list \<Rightarrow> nat" where
  "first_position m [] = 0"
| "first_position m (v # vs) = (if v = m then 0 else Suc (first_position m vs))"

definition idxmax :: "real list \<Rightarrow> nat" where
  "idxmax vs = first_position (Max (set vs)) vs"

text \<open>
  \<open>None\<close> stands for the \<open>else\<close> branch, the warning "No data available for the
  selected filters." The test \<open>'co2' in filtered_data.columns\<close> holds whenever this
  point is reached: a frame without that column makes \<open>load_data\<close> return the empty
  frame, and the script stops on it.
\<close>

definition key_metrics :: "dataset \<Rightarrow> metrics option" where
  "key_metrics fd =
     (if fd \<noteq> [] then
        Some \<lparr> total_co2_emitted = sum_list (map co2 fd),
               avg_annual_co2 = sum_list (map co2 fd) / real (length fd),
               max_emissions_year = year (fd ! idxmax (map co2 fd)),
               max_emissions_value = Max (set (map co2 fd)) \<rparr>
      else None)"

text \<open>
  \<open>None\<close> stands for "no change metric is shown": the frame is empty, or it has a
  single row.
\<close>

definition change_percent :: "dataset \<Rightarrow> real option" where
  "change_percent fd =
     (if fd \<noteq> [] then
        (if length fd \<ge> 2 then
           (let start_emission = co2 (fd ! 0);
                end_emission = co2 (fd ! (length fd - 1))
            in if start_emission \<noteq> 0
               then Some (((end_emission - start_emission) / start_emission) * 100)
               else Some 0)
         else None)
      else None)"

section \<open>Data Loader (lines 18 to 38)\<close>

text \<open>
  A frame as \<open>read_csv\<close> returns it: named columns of cells. \<open>NaNCell\<close> is a
  missing or non-finite number. \<open>pd.DataFrame()\<close> is the frame without columns.
\<close>

datatype cell = IntCell int | FloatCell real | NaNCell | StrCell string

type_synonym dataframe = "(string \<times> cell list) list"

text \<open>
  The exceptions the body of \<open>load_data\<close> can raise, all of them subclasses of
  Python's \<open>Exception\<close>: the fetch fails, the text does not parse, a column is
  absent, a value does not convert.
\<close>

datatype exn = URLError | ParserError | KeyError string | ValueError

definition getitem :: "dataframe \<Rightarrow> string \<Rightarrow> exn + cell list" where
  "getitem df k = (case map_of df k of None \<Rightarrow> Inl (KeyError k) | Some c \<Rightarrow> Inr c)"

definition setitem :: "dataframe \<Rightarrow> string \<Rightarrow> cell list \<Rightarrow> dataframe" where
  "setitem df k c = AList.update k c df"

text \<open>
  \<open>astype(int)\<close> on one cell: an integer stays, a finite float is truncated towards
  zero, a missing value raises, a string goes through Python's \<open>int\<close>, which is an
  argument of the model (\<open>None\<close> where \<open>int\<close> raises).
\<close>

definition cell_astype_int :: "(string \<Rightarrow> int option) \<Rightarrow> cell \<Rightarrow> exn + cell" where
  "cell_astype_int py_int c =
     (case c of
        IntCell i \<Rightarrow> Inr (IntCell i)
      | FloatCell f \<Rightarrow> Inr (IntCell (if f \<ge> 0 then \<lfloor>f\<rfloor> else \<lceil>f\<rceil>))
      | NaNCell \<Rightarrow> Inl ValueError
      | StrCell s \<Rightarrow> (case py_int s of None \<Rightarrow> Inl ValueError | Some i \<Rightarrow> Inr (IntCell i)))"

fun astype_int :: "(string \<Rightarrow> int option) \<Rightarrow> cell list \<Rightarrow> exn + cell list" where
  "astype_int py_int [] = Inr []"
| "astype_int py_int (c # cs) =
     (case cell_astype_int py_int c of
        Inl e \<Rightarrow> Inl e
      | Inr c' \<Rightarrow> (case astype_int py_int cs of Inl e \<Rightarrow> Inl e | Inr cs' \<Rightarrow> Inr (c' # cs')))"

definition fillna0 :: "cell list \<Rightarrow> cell list" where
  "fillna0 cs = map (\<lambda>c. case c of NaNCell \<Rightarrow> FloatCell 0 | _ \<Rightarrow> c) cs"

text \<open>
  The body of the \<open>try\<close>. Its argument is what \<open>pd.read_csv(DATA_URL)\<close> did:
  raised, or returned a frame.
\<close>

definition load_data_body :: "(string \<Rightarrow> int option) \<Rightarrow> exn + dataframe \<Rightarrow> exn + dataframe" where
  "load_data_body py_int read_csv =
     (case read_csv of
        Inl e \<Rightarrow> Inl e
      | Inr df \<Rightarrow>
          (case getitem df ''year'' of
             Inl e \<Rightarrow> Inl e
           | Inr ys \<Rightarrow>
               (case astype_int py_int ys of
                  Inl e \<Rightarrow> Inl e
                | Inr ys' \<Rightarrow>
                    (let df1 = setitem df ''year'' ys' in
                     case getitem df1 ''co2'' of
                       Inl e \<Rightarrow> Inl e
                     | Inr cs \<Rightarrow> Inr (setitem df1 ''co2'' (fillna0 cs))))))"

text \<open>
  \<open>load_data\<close> with its handler. \<open>Inl e\<close> would be an exception that leaves the
  function; \<open>Inr (shown, df)\<close> is a return of \<open>df\<close>, with the exception passed to
  \<open>st.error\<close> when there was one. \<open>except Exception\<close> takes every value of
  \<open>exn\<close>.
\<close>

definition load_data ::
  "(string \<Rightarrow> int option) \<Rightarrow> exn + dataframe \<Rightarrow> exn + (exn option \<times> dataframe)" where
  "load_data py_int read_csv =
     (case load_data_body py_int read_csv of
        Inr df \<Rightarrow> Inr (None, df)
      | Inl e \<Rightarrow> Inr (Some e, []))"

section \<open>The specification's operations, in its own words\<close>

text \<open>
  \<open>deriveTimeSeries\<close> as the specification words it: the rows of the entity
  (\<open>World\<close> for the aggregation token) whose year lies in the closed interval.
\<close>

definition spec_entity :: "string \<Rightarrow> string" where
  "spec_entity entity = (if entity = ''Global'' then ''World'' else entity)"

definition spec_matches :: "string \<Rightarrow> int \<Rightarrow> int \<Rightarrow> observation \<Rightarrow> bool" where
  "spec_matches entity startYear endYear r \<longleftrightarrow>
     country r = spec_entity entity \<and> startYear \<le> year r \<and> year r \<le> endYear"

definition qualifies :: "int \<Rightarrow> observation \<Rightarrow> bool" where
  "qualifies endYear r \<longleftrightarrow> year r = endYear \<and> country r \<notin> set excluded_aggregates"

definition ascending_by_year :: "dataset \<Rightarrow> bool" where
  "ascending_by_year xs \<longleftrightarrow> sorted_wrt (\<lambda>a b. year a \<le> year b) xs"

text \<open>
  \<open>deriveRanking\<close> filters the rows of \<open>endYear\<close> outside the exclusion set.
\<close>

definition qualifying :: "dataset \<Rightarrow> int \<Rightarrow> dataset" where
  "qualifying data endYear = filter (qualifies endYear) data"

section \<open>Example data\<close>

definition world_example :: dataset where
  "world_example =
     [\<lparr>country = ''World'', year = 2019, co2 = 36000\<rparr>,
      \<lparr>country = ''World'', year = 2020, co2 = 34000\<rparr>,
      \<lparr>country = ''France'', year = 2020, co2 = 300\<rparr>]"

definition ranking_example :: dataset where
  "ranking_example =
     [\<lparr>country = ''World'', year = 2020, co2 = 34000\<rparr>,
      \<lparr>country = ''Canada'', year = 2019, co2 = 580\<rparr>,
      \<lparr>country = ''Canada'', year = 2020, co2 = 540\<rparr>,
      \<lparr>country = ''China'', year = 2020, co2 = 10900\<rparr>,
      \<lparr>country = ''Germany'', year = 2020, co2 = 640\<rparr>,
      \<lparr>country = ''India'', year = 2020, co2 = 2400\<rparr>,
      \<lparr>country = ''Indonesia'', year = 2020, co2 = 590\<rparr>,
      \<lparr>country = ''Iran'', year = 2020, co2 = 750\<rparr>,
      \<lparr>country = ''Asia'', year = 2020, co2 = 20000\<rparr>,
      \<lparr>country = ''Japan'', year = 2020, co2 = 1040\<rparr>,
      \<lparr>country = ''Russia'', year = 2020, co2 = 1600\<rparr>,
      \<lparr>country = ''Saudi Arabia'', year = 2020, co2 = 600\<rparr>,
      \<lparr>country = ''South Korea'', year = 2020, co2 = 600\<rparr>,
      \<lparr>country = ''United States'', year = 2020, co2 = 4700\<rparr>]"

definition unordered_example :: dataset where
  "unordered_example =
     [\<lparr>country = ''World'', year = 2020, co2 = 34000\<rparr>,
      \<lparr>country = ''World'', year = 2019, co2 = 36000\<rparr>]"

definition zero_start_example :: dataset where
  "zero_start_example =
     [\<lparr>country = ''Tuvalu'', year = 1950, co2 = 0\<rparr>,
      \<lparr>country = ''Tuvalu'', year = 1951, co2 = 3\<rparr>]"

definition tie_example :: dataset where
  "tie_example =
     [\<lparr>country = ''Chile'', year = 2000, co2 = 5\<rparr>,
      \<lparr>country = ''Chile'', year = 2001, co2 = 9\<rparr>,
      \<lparr>country = ''Chile'', year = 2002, co2 = 9\<rparr>,
      \<lparr>country = ''Chile'', year = 2003, co2 = 1\<rparr>]"

text \<open>Python's \<open>int\<close> on the strings of the examples, and four frames.\<close>

definition py_int_table :: "string \<Rightarrow> int option" where
  "py_int_table = map_of [(''2019'', 2019), (''2020'', 2020)]"

definition good_frame :: dataframe where
  "good_frame =
     [(''country'', [StrCell ''World'', StrCell ''World'']),
      (''year'', [IntCell 2019, IntCell 2020]),
      (''co2'', [FloatCell 36000, NaNCell])]"

definition bad_year_frame :: dataframe where
  "bad_year_frame =
     [(''country'', [StrCell ''World'', StrCell ''World'']),
      (''year'', [StrCell ''2019'', StrCell ''unknown'']),
      (''co2'', [FloatCell 36000, FloatCell 34000])]"

definition no_year_frame :: dataframe where
  "no_year_frame =
     [(''country'', [StrCell ''World'']),
      (''co2'', [FloatCell 36000])]"

definition no_co2_frame :: dataframe where
  "no_co2_frame =
     [(''country'', [StrCell ''World'']),
      (''year'', [IntCell 2019])]"

section \<open>Filter Engine: the time series\<close>

lemma filtered_data_filter:
  "filtered_data data e s t = filter (spec_matches e s t) data"
  by (auto simp: filtered_data_def spec_matches_def spec_entity_def intro: filter_cong)

text \<open>
  C1. \<open>filtered_data\<close> is exactly the filter of the specification: the rows of
  \<open>World\<close> when \<open>Global\<close> is selected, of the selected entity otherwise, with
  \<open>start_year \<le> year \<le> end_year\<close>, in dataset order and with their multiplicity.
  When no row matches, in particular when the entity does not occur in the dataset, the
  result is the empty list.
\<close>

theorem filtered_data_exact:
  "filtered_data data e s t = filter (spec_matches e s t) data
   \<and> ((\<forall>r\<in>set data. \<not> spec_matches e s t r) \<longrightarrow> filtered_data data e s t = [])
   \<and> (spec_entity e \<notin> country ` set data \<longrightarrow> filtered_data data e s t = [])"
proof -
  have "spec_entity e \<notin> country ` set data \<Longrightarrow> \<forall>r\<in>set data. \<not> spec_matches e s t r"
    by (metis imageI spec_matches_def)
  then show ?thesis
    by (auto simp: filtered_data_filter filter_empty_conv)
qed

theorem filtered_data_exact_witness:
  "\<not> (\<exists>r\<in>set world_example. spec_matches ''Mars'' 2019 2020 r)
   \<and> spec_entity ''Mars'' \<notin> country ` set world_example
   \<and> filtered_data world_example ''Mars'' 2019 2020 = []
   \<and> filtered_data world_example ''Global'' 2020 2020
       = [\<lparr>country = ''World'', year = 2020, co2 = 34000\<rparr>]"
  using filtered_data_exact [of world_example "''Mars''" 2019 2020]
    filtered_data_exact [of world_example "''Global''" 2020 2020]
  by (simp add: spec_matches_def spec_entity_def world_example_def)

text \<open>
  C3, as the code has it. \<open>filtered_data\<close> does not sort: it keeps the rows in the
  order of the dataset (its result is a subsequence of the dataset). Its result is in
  ascending order of year whenever the dataset's rows of the matched entity are.
\<close>

theorem filtered_data_keeps_order:
  "subseq (filtered_data data e s t) data
   \<and> (ascending_by_year (filter (\<lambda>r. country r = spec_entity e) data) \<longrightarrow>
        ascending_by_year (filtered_data data e s t))"
proof -
  have "filtered_data data e s t
        = filter (\<lambda>r. s \<le> year r \<and> year r \<le> t) (filter (\<lambda>r. country r = spec_entity e) data)"
    by (simp add: filtered_data_filter spec_matches_def[abs_def] conj_commute)
  moreover have "ascending_by_year (filter (\<lambda>r. s \<le> year r \<and> year r \<le> t) xs)"
    if "ascending_by_year xs" for xs
    using that unfolding ascending_by_year_def by (rule sorted_wrt_filter)
  moreover have "subseq (filtered_data data e s t) data"
    by (simp add: filtered_data_filter)
  ultimately show ?thesis
    by metis
qed

theorem filtered_data_keeps_order_witness:
  "ascending_by_year (filter (\<lambda>r. country r = spec_entity ''Global'') world_example)
   \<and> ascending_by_year (filtered_data world_example ''Global'' 2019 2020)
   \<and> filtered_data world_example ''Global'' 2019 2020
       = [\<lparr>country = ''World'', year = 2019, co2 = 36000\<rparr>,
          \<lparr>country = ''World'', year = 2020, co2 = 34000\<rparr>]"
proof -
  have h: "ascending_by_year (filter (\<lambda>r. country r = spec_entity ''Global'') world_example)"
    by (simp add: ascending_by_year_def spec_entity_def world_example_def)
  have "ascending_by_year (filtered_data world_example ''Global'' 2019 2020)"
    using filtered_data_keeps_order [of world_example "''Global''" 2019 2020] h by blast
  moreover have "filtered_data world_example ''Global'' 2019 2020
       = [\<lparr>country = ''World'', year = 2019, co2 = 36000\<rparr>,
          \<lparr>country = ''World'', year = 2020, co2 = 34000\<rparr>]"
    by (simp add: filtered_data_def world_example_def)
  ultimately show ?thesis using h by blast
qed

text \<open>
  C3, as the specification has it, fails: on a dataset that lists \<open>World\<close> for 2020
  before 2019, the time series comes out in that order.
\<close>

theorem filtered_data_unsorted_counterexample:
  "filtered_data unordered_example ''Global'' 2019 2020
     = [\<lparr>country = ''World'', year = 2020, co2 = 34000\<rparr>,
        \<lparr>country = ''World'', year = 2019, co2 = 36000\<rparr>]
   \<and> \<not> ascending_by_year (filtered_data unordered_example ''Global'' 2019 2020)"
  by (simp add: ascending_by_year_def filtered_data_def unordered_example_def)

section \<open>Filter Engine: the ranking\<close>

lemma sorts_descending_stable: "sorts_descending sort_values_stable"
proof -
  have "sorted_wrt by_co2_descending (rev (sort_key co2 ys))" for ys :: dataset
  proof -
    have "sorted (map co2 (sort_key co2 ys))" by simp
    then have "sorted_wrt (\<lambda>a b. co2 a \<le> co2 b) (sort_key co2 ys)"
      by (simp add: sorted_map)
    then show ?thesis
      by (simp add: sorted_wrt_rev by_co2_descending_def)
  qed
  then show ?thesis
    by (simp add: sorts_descending_def sort_values_stable_def)
qed

lemma country_ranking_data_take:
  "country_ranking_data srt data sel ey = take 10 (srt (qualifying data ey))"
proof -
  have "filter (\<lambda>r. year r = ey \<and> \<not> (country r \<in> set excluded_aggregates)) data
        = qualifying data ey"
    by (simp add: qualifying_def qualifies_def[abs_def])
  then show ?thesis
    by (simp add: country_ranking_data_def)
qed

lemma set_qualifying:
  "set (qualifying data ey) = {r \<in> set data. year r = ey \<and> country r \<notin> set excluded_aggregates}"
  by (auto simp: qualifying_def qualifies_def)

lemma sorted_prefix_dominates:
  assumes "sorted_wrt by_co2_descending ys"
  shows "\<forall>r\<in>set (drop n ys). \<forall>t\<in>set (take n ys). co2 r \<le> co2 t"
proof -
  have "sorted_wrt by_co2_descending (take n ys @ drop n ys)"
    using assms by simp
  then show ?thesis
    unfolding sorted_wrt_append by (auto simp: by_co2_descending_def)
qed

text \<open>
  C2. For any sort that orders by decreasing \<open>co2\<close>, \<open>country_ranking_data\<close> is the
  first 10 rows of the sorted qualifying rows (year equal to \<open>end_year\<close>, entity outside
  the exclusion set). So: every row of the result is a row of the dataset of that year
  and outside the exclusion set; the result is in decreasing order of \<open>co2\<close>; its
  length is the smaller of 10 and the number of qualifying rows; it holds qualifying rows
  only, each at most as often as the dataset does; with at most 10 qualifying rows it
  holds all of them; and every qualifying row left out has a \<open>co2\<close> no larger than
  that of any row kept.
\<close>

theorem country_ranking_data_top10:
  assumes "sorts_descending srt"
  shows "country_ranking_data srt data sel ey = take 10 (srt (qualifying data ey))
    \<and> (\<forall>r\<in>set (country_ranking_data srt data sel ey).
          r \<in> set data \<and> year r = ey \<and> country r \<notin> set excluded_aggregates)
    \<and> sorted_wrt by_co2_descending (country_ranking_data srt data sel ey)
    \<and> length (country_ranking_data srt data sel ey) = min 10 (length (qualifying data ey))
    \<and> length (country_ranking_data srt data sel ey) \<le> 10
    \<and> mset (country_ranking_data srt data sel ey) \<subseteq># mset (qualifying data ey)
    \<and> (length (qualifying data ey) \<le> 10 \<longrightarrow>
          mset (country_ranking_data srt data sel ey) = mset (qualifying data ey))
    \<and> (\<forall>r\<in>#(mset (qualifying data ey) - mset (country_ranking_data srt data sel ey)).
          \<forall>t\<in>set (country_ranking_data srt data sel ey). co2 r \<le> co2 t)"
proof -
  let ?q = "qualifying data ey"
  let ?res = "country_ranking_data srt data sel ey"
  have perm: "mset (srt ?q) = mset ?q" and srtd: "sorted_wrt by_co2_descending (srt ?q)"
    using assms by (simp_all add: sorts_descending_def)
  have res: "?res = take 10 (srt ?q)"
    by (rule country_ranking_data_take)
  have len: "length (srt ?q) = length ?q"
    using perm by (rule mset_eq_length)
  have split: "mset ?q = mset ?res + mset (drop 10 (srt ?q))"
  proof -
    have "mset (take 10 (srt ?q)) + mset (drop 10 (srt ?q)) = mset (srt ?q)"
      by (simp only: mset_append[symmetric] append_take_drop_id)
    then show ?thesis by (simp only: perm res)
  qed
  have sub: "mset ?res \<subseteq># mset ?q"
    using split by simp
  have mem: "\<forall>r\<in>set ?res. r \<in> set data \<and> year r = ey \<and> country r \<notin> set excluded_aggregates"
  proof
    fix r assume "r \<in> set ?res"
    then have "r \<in># mset ?res" by simp
    then have "r \<in># mset ?q" using sub by (rule mset_subset_eqD[rotated])
    then show "r \<in> set data \<and> year r = ey \<and> country r \<notin> set excluded_aggregates"
      by (simp add: set_qualifying)
  qed
  have sorted_res: "sorted_wrt by_co2_descending ?res"
    unfolding res using srtd by (rule sorted_wrt_take)
  have length_res: "length ?res = min 10 (length ?q)"
    by (simp add: res len min.commute)
  have all: "length ?q \<le> 10 \<longrightarrow> mset ?res = mset ?q"
    by (simp add: res len perm)
  have rest: "\<forall>r\<in>#(mset ?q - mset ?res). \<forall>t\<in>set ?res. co2 r \<le> co2 t"
  proof -
    have "mset ?q - mset ?res = mset (drop 10 (srt ?q))"
      using split by simp
    then show ?thesis
      using sorted_prefix_dominates[OF srtd, of 10] by (simp add: res)
  qed
  show ?thesis
    using res mem sorted_res length_res sub all rest by simp
qed

theorem country_ranking_data_top10_witness:
  "sorts_descending sort_values_stable
   \<and> map country (country_ranking_data sort_values_stable ranking_example ''Global'' 2020)
       = [''China'', ''United States'', ''India'', ''Russia'', ''Japan'', ''Iran'', ''Germany'',
          ''Saudi Arabia'', ''South Korea'', ''Indonesia'']
   \<and> length (qualifying ranking_example 2020) = 11
   \<and> length (country_ranking_data sort_values_stable ranking_example ''Global'' 2020) = 10
   \<and> mset (qualifying ranking_example 2020)
       - mset (country_ranking_data sort_values_stable ranking_example ''Global'' 2020)
       = {#\<lparr>country = ''Canada'', year = 2020, co2 = 540\<rparr>#}
   \<and> length (qualifying ranking_example 2019) \<le> 10
   \<and> mset (country_ranking_data sort_values_stable ranking_example ''Global'' 2019)
       = mset (qualifying ranking_example 2019)
   \<and> country_ranking_data sort_values_stable ranking_example ''Global'' 2019
       = [\<lparr>country = ''Canada'', year = 2019, co2 = 580\<rparr>]"
proof -
  have h: "sorts_descending sort_values_stable"
    by (rule sorts_descending_stable)
  have q: "length (qualifying ranking_example 2020) = 11"
          "length (qualifying ranking_example 2019) \<le> 10"
    by (simp_all add: qualifying_def qualifies_def ranking_example_def excluded_aggregates_def)
  have r: "map country (country_ranking_data sort_values_stable ranking_example ''Global'' 2020)
       = [''China'', ''United States'', ''India'', ''Russia'', ''Japan'', ''Iran'', ''Germany'',
          ''Saudi Arabia'', ''South Korea'', ''Indonesia'']"
     "country_ranking_data sort_values_stable ranking_example ''Global'' 2019
       = [\<lparr>country = ''Canada'', year = 2019, co2 = 580\<rparr>]"
    by (simp_all add: country_ranking_data_def sort_values_stable_def ranking_example_def
          excluded_aggregates_def)
  have d: "mset (qualifying ranking_example 2020)
       - mset (country_ranking_data sort_values_stable ranking_example ''Global'' 2020)
       = {#\<lparr>country = ''Canada'', year = 2020, co2 = 540\<rparr>#}"
    by (simp add: country_ranking_data_def sort_values_stable_def ranking_example_def
          excluded_aggregates_def qualifying_def qualifies_def)
  note t20 = country_ranking_data_top10 [OF h, of ranking_example "''Global''" 2020]
  note t19 = country_ranking_data_top10 [OF h, of ranking_example "''Global''" 2019]
  have "length (country_ranking_data sort_values_stable ranking_example ''Global'' 2020)
        = min 10 (length (qualifying ranking_example 2020))"
    using t20 by blast
  then have l: "length (country_ranking_data sort_values_stable ranking_example ''Global'' 2020) = 10"
    by (simp add: q(1))
  have all: "mset (country_ranking_data sort_values_stable ranking_example ''Global'' 2019)
       = mset (qualifying ranking_example 2019)"
    using t19 q(2) by blast
  show ?thesis
    using h q r d l all by blast
qed

text \<open>
  C9. The ranking does not depend on the selected entity: the branch taken for
  \<open>Global\<close> and the branch taken for any other selection compute the same list.
\<close>

theorem ranking_independent_of_selection:
  "country_ranking_data srt data ''Global'' ey = country_ranking_data srt data e ey"
  by (simp add: country_ranking_data_def)

section \<open>Metric Calculator\<close>

lemma first_position_found:
  "m \<in> set vs \<Longrightarrow>
     first_position m vs < length vs \<and> vs ! first_position m vs = m
     \<and> (\<forall>j < first_position m vs. vs ! j \<noteq> m)"
proof (induction vs)
  case Nil
  then show ?case by simp
next
  case (Cons v vs)
  show ?case
  proof (cases "v = m")
    case True
    then show ?thesis by simp
  next
    case False
    with Cons.prems have "m \<in> set vs" by simp
    from Cons.IH[OF this] False show ?thesis
      by (auto simp: nth_Cons split: nat.splits)
  qed
qed

lemma idxmax_first_maximum:
  assumes "vs \<noteq> []"
  shows "idxmax vs < length vs" "vs ! idxmax vs = Max (set vs)"
    "\<forall>j < idxmax vs. vs ! j < Max (set vs)"
proof -
  have "Max (set vs) \<in> set vs"
    using assms by (intro Max_in) simp_all
  from first_position_found[OF this]
  have a: "idxmax vs < length vs" and b: "vs ! idxmax vs = Max (set vs)"
    and c: "\<forall>j < idxmax vs. vs ! j \<noteq> Max (set vs)"
    by (simp_all add: idxmax_def)
  show "idxmax vs < length vs" by (rule a)
  show "vs ! idxmax vs = Max (set vs)" by (rule b)
  show "\<forall>j < idxmax vs. vs ! j < Max (set vs)"
  proof (intro allI impI)
    fix j assume j: "j < idxmax vs"
    then have "j < length vs" using a by simp
    then have "vs ! j \<le> Max (set vs)" by simp
    moreover have "vs ! j \<noteq> Max (set vs)" using c j by simp
    ultimately show "vs ! j < Max (set vs)" by simp
  qed
qed

text \<open>
  C4. With at least two rows, the change is
  \<open>(last.co2 - first.co2) / first.co2 * 100\<close> when the first row's \<open>co2\<close> is not
  zero, and \<open>0\<close> when it is; with fewer than two rows no change metric is produced.
  The model has no error value for this function: no path of the source divides by zero.
\<close>

theorem change_percent_guarded:
  "(2 \<le> length s \<longrightarrow>
      change_percent s =
        Some (if co2 (hd s) \<noteq> 0 then (co2 (last s) - co2 (hd s)) / co2 (hd s) * 100 else 0))
   \<and> (length s < 2 \<longrightarrow> change_percent s = None)"
proof (cases "2 \<le> length s")
  case True
  then have ne: "s \<noteq> []" by auto
  have "s ! 0 = hd s" using ne by (simp add: hd_conv_nth)
  moreover have "s ! (length s - 1) = last s" using ne by (simp add: last_conv_nth)
  ultimately show ?thesis
    using True ne by (simp add: change_percent_def Let_def)
next
  case False
  then show ?thesis by (simp add: change_percent_def)
qed

theorem change_percent_guarded_witness:
  "2 \<le> length (filtered_data world_example ''Global'' 2019 2020)
   \<and> change_percent (filtered_data world_example ''Global'' 2019 2020) = Some (- 50 / 9)
   \<and> 2 \<le> length zero_start_example
   \<and> change_percent zero_start_example = Some 0
   \<and> length (filtered_data world_example ''France'' 2019 2020) < 2
   \<and> change_percent (filtered_data world_example ''France'' 2019 2020) = None
   \<and> change_percent [] = None"
  using change_percent_guarded [of "filtered_data world_example ''Global'' 2019 2020"]
    change_percent_guarded [of zero_start_example]
    change_percent_guarded [of "filtered_data world_example ''France'' 2019 2020"]
    change_percent_guarded [of "[]"]
  by (simp add: filtered_data_def world_example_def zero_start_example_def)

text \<open>
  C5. On the empty slice \<open>key_metrics\<close> gives the "no data" outcome, which is no
  bundle of numbers at all. On a non-empty slice it gives a bundle whose total is the sum
  of \<open>co2\<close>, whose mean is the total divided by the number of rows, and whose peak
  year and peak value are those of a row of the slice with the largest \<open>co2\<close>.
\<close>

theorem key_metrics_summary:
  "(s = [] \<longrightarrow> key_metrics s = None \<and> (\<forall>m. key_metrics s \<noteq> Some m))
   \<and> (s \<noteq> [] \<longrightarrow>
        (\<exists>m. key_metrics s = Some m
           \<and> total_co2_emitted m = sum_list (map co2 s)
           \<and> avg_annual_co2 m = total_co2_emitted m / real (length s)
           \<and> (\<exists>r\<in>set s. max_emissions_year m = year r \<and> max_emissions_value m = co2 r
                 \<and> (\<forall>q\<in>set s. co2 q \<le> co2 r))))"
proof (cases "s = []")
  case True
  then show ?thesis by (simp add: key_metrics_def)
next
  case False
  let ?i = "idxmax (map co2 s)"
  have ne: "map co2 s \<noteq> []" using False by simp
  have i: "?i < length s" using idxmax_first_maximum(1)[OF ne] by simp
  have v: "co2 (s ! ?i) = Max (set (map co2 s))"
    using idxmax_first_maximum(2)[OF ne] i by simp
  have top: "\<forall>q\<in>set s. co2 q \<le> co2 (s ! ?i)"
    unfolding v by simp
  have "s ! ?i \<in> set s" using i by simp
  then have "\<exists>r\<in>set s. year (s ! ?i) = year r \<and> Max (set (map co2 s)) = co2 r
                 \<and> (\<forall>q\<in>set s. co2 q \<le> co2 r)"
    using v top by metis
  then show ?thesis
    using False by (simp add: key_metrics_def)
qed

theorem key_metrics_summary_witness:
  "filtered_data world_example ''Mars'' 2019 2020 = []
   \<and> key_metrics (filtered_data world_example ''Mars'' 2019 2020) = None
   \<and> filtered_data world_example ''Global'' 2019 2020 \<noteq> []
   \<and> key_metrics (filtered_data world_example ''Global'' 2019 2020)
       = Some \<lparr>total_co2_emitted = 70000, avg_annual_co2 = 35000,
               max_emissions_year = 2019, max_emissions_value = 36000\<rparr>"
  using key_metrics_summary [of "filtered_data world_example ''Mars'' 2019 2020"]
    key_metrics_summary [of "filtered_data world_example ''Global'' 2019 2020"]
  by (simp add: filtered_data_def world_example_def key_metrics_def idxmax_def)

text \<open>
  C7. On a non-empty slice the peak value is the largest \<open>co2\<close>, and the peak
  year is the year of the first row, in the order of the slice, that holds it. On a slice
  in ascending order of year (what the specification calls a TimeSeriesSlice) that is the
  least year among the rows holding the maximum.
\<close>

theorem peak_year_first_of_ties:
  assumes "s \<noteq> []"
  shows "\<exists>m i. key_metrics s = Some m
           \<and> max_emissions_value m = Max (co2 ` set s)
           \<and> i < length s \<and> co2 (s ! i) = Max (co2 ` set s)
           \<and> (\<forall>j<i. co2 (s ! j) < Max (co2 ` set s))
           \<and> max_emissions_year m = year (s ! i)
           \<and> (ascending_by_year s \<longrightarrow>
                max_emissions_year m = Min (year ` {r \<in> set s. co2 r = Max (co2 ` set s)}))"
proof -
  let ?i = "idxmax (map co2 s)"
  let ?M = "Max (co2 ` set s)"
  let ?T = "{r \<in> set s. co2 r = ?M}"
  have ne: "map co2 s \<noteq> []" using assms by simp
  have i: "?i < length s" using idxmax_first_maximum(1)[OF ne] by simp
  have v: "co2 (s ! ?i) = ?M"
    using idxmax_first_maximum(2)[OF ne] i by simp
  have before: "\<forall>j < ?i. co2 (s ! j) < ?M"
  proof (intro allI impI)
    fix j assume j: "j < ?i"
    then have "map co2 s ! j < Max (set (map co2 s))"
      using idxmax_first_maximum(3)[OF ne] by blast
    moreover have "j < length s" using j i by simp
    ultimately show "co2 (s ! j) < ?M" by simp
  qed
  have inT: "s ! ?i \<in> ?T" using i v by simp
  have least: "year (s ! ?i) \<le> year r" if "r \<in> ?T" and asc: "ascending_by_year s" for r
  proof -
    from that obtain k where k: "k < length s" "s ! k = r"
      by (auto simp: in_set_conv_nth)
    have "\<not> k < ?i" using before k that by auto
    then consider "k = ?i" | "?i < k" by linarith
    then show ?thesis
    proof cases
      case 1
      then show ?thesis using k by simp
    next
      case 2
      then show ?thesis
        using asc k sorted_wrt_nth_less[of "\<lambda>a b. year a \<le> year b" s ?i k]
        by (simp add: ascending_by_year_def)
    qed
  qed
  have earliest: "year (s ! ?i) = Min (year ` ?T)" if asc: "ascending_by_year s"
  proof (rule sym, rule Min_eqI)
    show "finite (year ` ?T)" by simp
    show "\<And>y. y \<in> year ` ?T \<Longrightarrow> year (s ! ?i) \<le> y" using least asc by auto
    show "year (s ! ?i) \<in> year ` ?T" using inT by (rule imageI)
  qed
  have k: "key_metrics s = Some \<lparr> total_co2_emitted = sum_list (map co2 s),
               avg_annual_co2 = sum_list (map co2 s) / real (length s),
               max_emissions_year = year (s ! ?i),
               max_emissions_value = ?M \<rparr>"
    using assms by (simp add: key_metrics_def)
  show ?thesis
    using k i v before earliest by auto
qed

theorem peak_year_first_of_ties_witness:
  "tie_example \<noteq> [] \<and> ascending_by_year tie_example
   \<and> key_metrics tie_example
       = Some \<lparr>total_co2_emitted = 24, avg_annual_co2 = 6,
               max_emissions_year = 2001, max_emissions_value = 9\<rparr>
   \<and> Max (co2 ` set tie_example) = 9
   \<and> Min (year ` {r \<in> set tie_example. co2 r = Max (co2 ` set tie_example)}) = 2001"
proof -
  have h1: "tie_example \<noteq> []" by (simp add: tie_example_def)
  have h2: "ascending_by_year tie_example"
    by (simp add: ascending_by_year_def tie_example_def)
  have k: "key_metrics tie_example
       = Some \<lparr>total_co2_emitted = 24, avg_annual_co2 = 6,
               max_emissions_year = 2001, max_emissions_value = 9\<rparr>"
    by (simp add: key_metrics_def idxmax_def tie_example_def)
  show ?thesis
    using peak_year_first_of_ties [OF h1] h1 h2 k by auto
qed

text \<open>
  C8. When the selection of an entity over the single year \<open>y\<close> matches exactly one
  row \<open>r\<close>, the summary of the time series has total and mean both equal to the
  \<open>co2\<close> of \<open>r\<close> (and peak year \<open>y\<close>, peak value that \<open>co2\<close>), and no change
  percentage is produced.
\<close>

theorem single_year_round_trip:
  assumes "filtered_data data e y y = [r]"
  shows "key_metrics (filtered_data data e y y)
           = Some \<lparr>total_co2_emitted = co2 r, avg_annual_co2 = co2 r,
                   max_emissions_year = y, max_emissions_value = co2 r\<rparr>
         \<and> change_percent (filtered_data data e y y) = None
         \<and> r \<in> set data \<and> country r = spec_entity e \<and> year r = y"
proof -
  have "r \<in> set (filter (spec_matches e y y) data)"
    using assms by (simp add: filtered_data_filter)
  then have r: "r \<in> set data" "country r = spec_entity e" "year r = y"
    by (auto simp: spec_matches_def)
  have "key_metrics [r] = Some \<lparr>total_co2_emitted = co2 r, avg_annual_co2 = co2 r,
                   max_emissions_year = year r, max_emissions_value = co2 r\<rparr>"
    by (simp add: key_metrics_def idxmax_def)
  moreover have "change_percent [r] = None"
    by (simp add: change_percent_def)
  ultimately show ?thesis
    using r by (simp add: assms)
qed

theorem single_year_round_trip_witness:
  "filtered_data world_example ''France'' 2020 2020
     = [\<lparr>country = ''France'', year = 2020, co2 = 300\<rparr>]
   \<and> key_metrics (filtered_data world_example ''France'' 2020 2020)
       = Some \<lparr>total_co2_emitted = 300, avg_annual_co2 = 300,
               max_emissions_year = 2020, max_emissions_value = 300\<rparr>
   \<and> change_percent (filtered_data world_example ''France'' 2020 2020) = None"
proof -
  have h: "filtered_data world_example ''France'' 2020 2020
     = [\<lparr>country = ''France'', year = 2020, co2 = 300\<rparr>]"
    by (simp add: filtered_data_def world_example_def)
  show ?thesis
    using single_year_round_trip [OF h] h by simp
qed

section \<open>Data Loader\<close>

lemma cell_astype_int_error:
  "cell_astype_int p c = Inl e \<Longrightarrow> e = ValueError"
  by (auto simp: cell_astype_int_def split: cell.splits option.splits)

lemma astype_int_fails:
  "\<exists>c\<in>set cs. isl (cell_astype_int p c) \<Longrightarrow> astype_int p cs = Inl ValueError"
proof (induction cs)
  case Nil
  then show ?case by simp
next
  case (Cons c cs)
  show ?case
  proof (cases "cell_astype_int p c")
    case (Inl e)
    then show ?thesis using cell_astype_int_error[OF Inl] by simp
  next
    case (Inr c')
    with Cons.prems have "\<exists>c\<in>set cs. isl (cell_astype_int p c)" by auto
    from Cons.IH[OF this] Inr show ?thesis by simp
  qed
qed

lemma astype_int_succeeds:
  "\<not> (\<exists>c\<in>set cs. isl (cell_astype_int p c)) \<Longrightarrow> \<exists>cs'. astype_int p cs = Inr cs'"
proof (induction cs)
  case Nil
  then show ?case by simp
next
  case (Cons c cs)
  then obtain c' cs' where "cell_astype_int p c = Inr c'" "astype_int p cs = Inr cs'"
    by (cases "cell_astype_int p c") auto
  then show ?case by simp
qed

lemma getitem_setitem_other:
  "k \<noteq> k' \<Longrightarrow> getitem (setitem df k c) k' = getitem df k'"
  by (simp add: getitem_def setitem_def update_conv')

text \<open>
  C6, as the code has it. \<open>load_data\<close> does not let a schema or parse failure out:
  when the \<open>year\<close> column is missing, when a year does not convert to an integer, or
  when the \<open>co2\<close> column is missing, the exception is caught and shown, and the
  function returns the empty frame, exactly as it does when the fetch fails.
\<close>

theorem load_data_degrades_on_schema_errors:
  "load_data p (Inl e) = Inr (Some e, [])
   \<and> (map_of df ''year'' = None \<longrightarrow>
        load_data p (Inr df) = Inr (Some (KeyError ''year''), []))
   \<and> (map_of df ''year'' = Some ys \<and> (\<exists>c\<in>set ys. isl (cell_astype_int p c)) \<longrightarrow>
        load_data p (Inr df) = Inr (Some ValueError, []))
   \<and> (map_of df ''year'' = Some ys \<and> \<not> (\<exists>c\<in>set ys. isl (cell_astype_int p c))
        \<and> map_of df ''co2'' = None \<longrightarrow>
        load_data p (Inr df) = Inr (Some (KeyError ''co2''), []))"
proof (intro conjI impI)
  show "load_data p (Inl e) = Inr (Some e, [])"
    by (simp add: load_data_def load_data_body_def)
next
  assume "map_of df ''year'' = None"
  then show "load_data p (Inr df) = Inr (Some (KeyError ''year''), [])"
    by (simp add: load_data_def load_data_body_def getitem_def)
next
  assume "map_of df ''year'' = Some ys \<and> (\<exists>c\<in>set ys. isl (cell_astype_int p c))"
  then have "getitem df ''year'' = Inr ys" "astype_int p ys = Inl ValueError"
    by (simp_all add: getitem_def astype_int_fails)
  then show "load_data p (Inr df) = Inr (Some ValueError, [])"
    by (simp add: load_data_def load_data_body_def)
next
  assume a: "map_of df ''year'' = Some ys \<and> \<not> (\<exists>c\<in>set ys. isl (cell_astype_int p c))
        \<and> map_of df ''co2'' = None"
  then obtain ys' where ys': "astype_int p ys = Inr ys'"
    using astype_int_succeeds by blast
  have y: "getitem df ''year'' = Inr ys" using a by (simp add: getitem_def)
  have "getitem (setitem df ''year'' ys') ''co2'' = getitem df ''co2''"
    by (rule getitem_setitem_other) simp
  also have "\<dots> = Inl (KeyError ''co2'')" using a by (simp add: getitem_def)
  finally show "load_data p (Inr df) = Inr (Some (KeyError ''co2''), [])"
    using y ys' by (simp add: load_data_def load_data_body_def)
qed

theorem load_data_degrades_on_schema_errors_witness:
  "load_data py_int_table (Inl URLError) = Inr (Some URLError, [])
   \<and> map_of no_year_frame ''year'' = None
   \<and> load_data py_int_table (Inr no_year_frame) = Inr (Some (KeyError ''year''), [])
   \<and> map_of bad_year_frame ''year'' = Some [StrCell ''2019'', StrCell ''unknown'']
   \<and> (\<exists>c\<in>set [StrCell ''2019'', StrCell ''unknown'']. isl (cell_astype_int py_int_table c))
   \<and> load_data py_int_table (Inr bad_year_frame) = Inr (Some ValueError, [])
   \<and> map_of no_co2_frame ''year'' = Some [IntCell 2019]
   \<and> \<not> (\<exists>c\<in>set [IntCell 2019]. isl (cell_astype_int py_int_table c))
   \<and> map_of no_co2_frame ''co2'' = None
   \<and> load_data py_int_table (Inr no_co2_frame) = Inr (Some (KeyError ''co2''), [])"
proof -
  have a: "map_of no_year_frame ''year'' = None"
    by (simp add: no_year_frame_def)
  have b: "map_of bad_year_frame ''year'' = Some [StrCell ''2019'', StrCell ''unknown'']
     \<and> (\<exists>c\<in>set [StrCell ''2019'', StrCell ''unknown'']. isl (cell_astype_int py_int_table c))"
    by (simp add: bad_year_frame_def cell_astype_int_def py_int_table_def)
  have c: "map_of no_co2_frame ''year'' = Some [IntCell 2019]
     \<and> \<not> (\<exists>c\<in>set [IntCell 2019]. isl (cell_astype_int py_int_table c))
     \<and> map_of no_co2_frame ''co2'' = None"
    by (simp add: no_co2_frame_def cell_astype_int_def)
  show ?thesis
    using a b c
      load_data_degrades_on_schema_errors
        [of py_int_table URLError no_year_frame "[]"]
      load_data_degrades_on_schema_errors
        [of py_int_table URLError bad_year_frame "[StrCell ''2019'', StrCell ''unknown'']"]
      load_data_degrades_on_schema_errors
        [of py_int_table URLError no_co2_frame "[IntCell 2019]"]
    by blast
qed

text \<open>
  C6, as the specification has it, fails: a year that does not convert and a missing
  \<open>year\<close> column both end in a normal return of the empty frame, not in an
  exception that leaves \<open>load_data\<close>.
\<close>

theorem load_data_propagates_counterexample:
  "load_data py_int_table (Inr bad_year_frame) = Inr (Some ValueError, [])
   \<and> load_data py_int_table (Inr no_year_frame) = Inr (Some (KeyError ''year''), [])
   \<and> \<not> isl (load_data py_int_table (Inr bad_year_frame))
   \<and> \<not> isl (load_data py_int_table (Inr no_year_frame))"
  by (simp add: load_data_def load_data_body_def getitem_def cell_astype_int_def
        bad_year_frame_def no_year_frame_def py_int_table_def)

text \<open>
  C10. \<open>load_data\<close> returns for every outcome of the fetch and every frame: no
  exception leaves it. Whatever exception its body raises is caught and shown and the
  empty frame is returned; when the body succeeds its frame is returned.
\<close>

theorem load_data_never_raises:
  "(\<exists>shown df. load_data p read_csv = Inr (shown, df) \<and> (shown \<noteq> None \<longrightarrow> df = []))
   \<and> (\<forall>e. load_data_body p read_csv = Inl e \<longrightarrow> load_data p read_csv = Inr (Some e, []))
   \<and> (\<forall>df. load_data_body p read_csv = Inr df \<longrightarrow> load_data p read_csv = Inr (None, df))"
  by (cases "load_data_body p read_csv") (simp_all add: load_data_def)

theorem load_data_never_raises_witness:
  "load_data_body py_int_table (Inl URLError) = Inl URLError
   \<and> load_data py_int_table (Inl URLError) = Inr (Some URLError, [])
   \<and> load_data_body py_int_table (Inr bad_year_frame) = Inl ValueError
   \<and> load_data py_int_table (Inr bad_year_frame) = Inr (Some ValueError, [])
   \<and> load_data_body py_int_table (Inr no_co2_frame) = Inl (KeyError ''co2'')
   \<and> load_data py_int_table (Inr no_co2_frame) = Inr (Some (KeyError ''co2''), [])
   \<and> load_data_body py_int_table (Inr good_frame)
       = Inr [(''country'', [StrCell ''World'', StrCell ''World'']),
              (''year'', [IntCell 2019, IntCell 2020]),
              (''co2'', [FloatCell 36000, FloatCell 0])]
   \<and> load_data py_int_table (Inr good_frame)
       = Inr (None, [(''country'', [StrCell ''World'', StrCell ''World'']),
                     (''year'', [IntCell 2019, IntCell 2020]),
                     (''co2'', [FloatCell 36000, FloatCell 0])])"
proof -
  have b: "load_data_body py_int_table (Inl URLError) = Inl URLError"
    "load_data_body py_int_table (Inr bad_year_frame) = Inl ValueError"
    "load_data_body py_int_table (Inr no_co2_frame) = Inl (KeyError ''co2'')"
    "load_data_body py_int_table (Inr good_frame)
       = Inr [(''country'', [StrCell ''World'', StrCell ''World'']),
              (''year'', [IntCell 2019, IntCell 2020]),
              (''co2'', [FloatCell 36000, FloatCell 0])]"
    by (simp_all add: load_data_body_def getitem_def setitem_def cell_astype_int_def fillna0_def
          bad_year_frame_def no_co2_frame_def good_frame_def py_int_table_def)
  show ?thesis
    using b
      load_data_never_raises [of py_int_table "Inl URLError"]
      load_data_never_raises [of py_int_table "Inr bad_year_frame"]
      load_data_never_raises [of py_int_table "Inr no_co2_frame"]
      load_data_never_raises [of py_int_table "Inr good_frame"]
    by simp
qed

end
